theory Spec2Isabelle
  imports Main "HOL-Library.Word"
begin

section \<open>The state of a LogStream\<close>

text \<open>
  The class \<open>LogStream\<close> of \<open>base/logstream.h\<close>, field by field. The two
  \<open>std::ostream *\<close> members are references to streams kept by the caller: a stream is
  named by a number, and the null pointer of \<open>file\<close> (here \<open>file'\<close>) is \<open>None\<close>.
  \<open>std::stack<std::string>\<close> is the list of its entries in push order, the top being
  the last element. The two depths are \<open>unsigned int\<close>.
\<close>

type_synonym ostream = nat

record LogStream =
  prefixes :: "string list"
  std_out :: ostream
  file' :: "ostream option"
  was_endl :: bool
  std_depth :: "32 word"
  file_depth :: "32 word"
  print_utime :: bool

text \<open>
  What the logger does to its streams is recorded as the list of insertions it
  performs, in the order of the calls. An insertion names the member it goes through
  (\<open>*std_out << ...\<close> is \<open>Console\<close>, \<open>*file << ...\<close> is \<open>File\<close>) and the thing
  inserted: the text a value renders to, the token of the time source, or
  \<open>std::endl\<close>. The streams themselves, how they format a value and the clock are
  outside the class.
\<close>

datatype sink = Console | File

datatype item = Text string | Utime | Newline

type_synonym emission = "sink \<times> item"

text \<open>The insertions that went through one of the two members.\<close>

definition through :: "sink \<Rightarrow> emission list \<Rightarrow> item list" where
  "through k es = map snd (filter (\<lambda>e. fst e = k) es)"

text \<open>
  The errors a call can signal. \<open>ExcNoFileStreamGiven\<close> is the exception the class
  declares (the \<open>NoSecondarySink\<close> of the specification); \<open>ScopeUnderflow\<close> is the
  specification's name for the failure of \<open>pop\<close>, for which the class declares no
  exception of its own.
\<close>

datatype error = ScopeUnderflow | ExcNoFileStreamGiven

section \<open>The head of a line\<close>

text \<open>
  Modelled from the spec: the text of the line head. Only the declaration of
  \<open>LogStream::print_line_head\<close> is in the header. Section 3 of the specification
  gives the text as the stack entries in push order, to be reproduced as "entries joined
  by \<open>:\<close> then one more \<open>:\<close> appended"; section 8 gives \<open>a:b:\<close> for the stack of
  \<open>a\<close> and \<open>b\<close>.
\<close>

fun join_colon :: "string list \<Rightarrow> string" where
  "join_colon [] = []"
| "join_colon [x] = x"
| "join_colon (x # y # zs) = x @ '':'' @ join_colon (y # zs)"

definition line_head_text :: "string list \<Rightarrow> string" where
  "line_head_text ps = join_colon ps @ '':''"

text \<open>
  Modelled from the spec: the items of a rendered header (section 4.3): the time token
  when the time flag is set, then the joined scope labels.
\<close>

definition line_head :: "LogStream \<Rightarrow> item list" where
  "line_head s = (if print_utime s then [Utime] else []) @ [Text (line_head_text (prefixes s))]"

text \<open>
  Modelled from the spec: the body of \<open>LogStream::print_line_head\<close>, which is not
  in the header. Section 4.4, step 1 of \<open>write\<close>: the header is emitted "through
  whichever sinks are currently eligible (same depth check as step 2, applied to the header
  text)"; section 4.3: rendering has no side effects, so no field changes.
\<close>

definition print_line_head :: "LogStream \<Rightarrow> emission list" where
  "print_line_head s =
     (if length (prefixes s) \<le> unat (std_depth s)
      then map (Pair Console) (line_head s) else []) @
     (if file' s \<noteq> None \<and> length (prefixes s) \<le> unat (file_depth s)
      then map (Pair File) (line_head s) else [])"

section \<open>The inline functions of the header\<close>

text \<open>
  \<open>LogStream::operator<< (const T &t)\<close>; \<open>t\<close> is given as the text it renders to.
  The comparison \<open>prefixes.size() <= std_depth\<close> is one of unsigned numbers, the
  stack size being a \<open>size_t\<close>.
\<close>

definition operator_lshift :: "string \<Rightarrow> LogStream \<Rightarrow> emission list \<times> LogStream" where
  "operator_lshift t s =
     (let (h, s1) = (if was_endl s then (print_line_head s, s\<lparr>was_endl := False\<rparr>)
                     else ([], s));
          c = (if length (prefixes s1) \<le> unat (std_depth s1) then [(Console, Text t)] else []);
          f = (if file' s1 \<noteq> None \<and> length (prefixes s1) \<le> unat (file_depth s1)
               then [(File, Text t)] else [])
      in (h @ c @ f, s1))"

text \<open>
  \<open>endl (LogStream &s)\<close>, the friend that stands for \<open>std::endl\<close>. The flush that
  \<open>std::endl\<close> does on a stream is the stream's business and is not recorded.
\<close>

definition endl :: "LogStream \<Rightarrow> emission list \<times> LogStream" where
  "endl s =
     (let c = (if length (prefixes s) \<le> unat (std_depth s) then [(Console, Newline)] else []);
          f = (if file' s \<noteq> None \<and> length (prefixes s) \<le> unat (file_depth s)
               then [(File, Newline)] else [])
      in (c @ f, s\<lparr>was_endl := True\<rparr>))"

section \<open>The member functions declared in the header\<close>

text \<open>
  Modelled from the spec: the body of \<open>LogStream::push\<close> (section 4.1: "appends
  \<open>label\<close> to \<open>prefixStack\<close>", with no effect on the sinks).
\<close>

definition push :: "string \<Rightarrow> LogStream \<Rightarrow> LogStream" where
  "push text s = s\<lparr>prefixes := prefixes s @ [text]\<rparr>"

text \<open>
  Modelled from the spec: the body of \<open>LogStream::pop\<close> (section 4.1: "removes the
  most recently pushed label"; on an empty stack it signals \<open>ScopeUnderflow\<close>). The
  result is the error, if any, and the state the call leaves.
\<close>

definition pop :: "LogStream \<Rightarrow> error option \<times> LogStream" where
  "pop s = (if prefixes s = [] then (Some ScopeUnderflow, s)
            else (None, s\<lparr>prefixes := butlast (prefixes s)\<rparr>))"

text \<open>
  Modelled from the spec: the bodies of \<open>attach\<close>, \<open>detach\<close>, \<open>depth_console\<close>,
  \<open>depth_file\<close> and \<open>log_execution_time\<close> (section 4.2: each one sets its field).
\<close>

definition attach :: "ostream \<Rightarrow> LogStream \<Rightarrow> LogStream" where
  "attach o' s = s\<lparr>file' := Some o'\<rparr>"

definition detach :: "LogStream \<Rightarrow> LogStream" where
  "detach s = s\<lparr>file' := None\<rparr>"

definition depth_console :: "32 word \<Rightarrow> LogStream \<Rightarrow> LogStream" where
  "depth_console n s = s\<lparr>std_depth := n\<rparr>"

definition depth_file :: "32 word \<Rightarrow> LogStream \<Rightarrow> LogStream" where
  "depth_file n s = s\<lparr>file_depth := n\<rparr>"

definition log_execution_time :: "bool \<Rightarrow> LogStream \<Rightarrow> LogStream" where
  "log_execution_time flag s = s\<lparr>print_utime := flag\<rparr>"

text \<open>
  Modelled from the spec: the bodies of \<open>get_console\<close> and \<open>get_file_stream\<close>.
  The header declares the exception \<open>ExcNoFileStreamGiven\<close>; section 7 has the request
  for the secondary sink's target fail with it (\<open>NoSecondarySink\<close>) when none is
  attached.
\<close>

definition get_console :: "LogStream \<Rightarrow> ostream" where
  "get_console s = std_out s"

definition get_file_stream :: "LogStream \<Rightarrow> error + ostream" where
  "get_file_stream s = (case file' s of None \<Rightarrow> Inl ExcNoFileStreamGiven | Some o' \<Rightarrow> Inr o')"

section \<open>Sequences of calls\<close>

text \<open>
  A caller's program is a list of calls on the one logger. A call returns, hands back a
  stream, or raises; a raise ends the program, with what had been emitted until then.
\<close>

datatype call =
    Push string | Pop | Attach ostream | Detach
  | Depth_console "32 word" | Depth_file "32 word" | Log_execution_time bool
  | Get_console | Get_file_stream
  | Write string | Endl

datatype outcome = Returned | Stream ostream | Raised error

fun invoke :: "call \<Rightarrow> LogStream \<Rightarrow> outcome \<times> emission list \<times> LogStream" where
  "invoke (Push l) s = (Returned, [], push l s)"
| "invoke Pop s =
     (case fst (pop s) of None \<Rightarrow> (Returned, [], snd (pop s))
                        | Some e \<Rightarrow> (Raised e, [], snd (pop s)))"
| "invoke (Attach o') s = (Returned, [], attach o' s)"
| "invoke Detach s = (Returned, [], detach s)"
| "invoke (Depth_console n) s = (Returned, [], depth_console n s)"
| "invoke (Depth_file n) s = (Returned, [], depth_file n s)"
| "invoke (Log_execution_time b) s = (Returned, [], log_execution_time b s)"
| "invoke Get_console s = (Stream (get_console s), [], s)"
| "invoke Get_file_stream s =
     (case get_file_stream s of Inl e \<Rightarrow> (Raised e, [], s) | Inr o' \<Rightarrow> (Stream o', [], s))"
| "invoke (Write t) s = (Returned, fst (operator_lshift t s), snd (operator_lshift t s))"
| "invoke Endl s = (Returned, fst (endl s), snd (endl s))"

fun invoke_all :: "call list \<Rightarrow> LogStream \<Rightarrow> error option \<times> emission list \<times> LogStream" where
  "invoke_all [] s = (None, [], s)"
| "invoke_all (c # cs) s =
     (case invoke c s of
        (Raised e, es, s') \<Rightarrow> (Some e, es, s')
      | (_, es, s') \<Rightarrow>
          (case invoke_all cs s' of (r, es', s'') \<Rightarrow> (r, es @ es', s'')))"

text \<open>The state a program leaves.\<close>

definition after :: "call list \<Rightarrow> LogStream \<Rightarrow> LogStream" where
  "after cs s = snd (snd (invoke_all cs s))"

text \<open>The two calls that write to the streams.\<close>

fun is_output :: "call \<Rightarrow> bool" where
  "is_output (Write t) = True"
| "is_output Endl = True"
| "is_output _ = False"

section \<open>Auxiliary facts\<close>

lemma through_append: "through k (es @ fs) = through k es @ through k fs"
  by (simp add: through_def)

lemma through_Pair: "through k (map (Pair k') is) = (if k = k' then is else [])"
  by (induction "is") (auto simp: through_def)

lemma through_Cons:
  "through k ((k', i) # es) = (if k' = k then i # through k es else through k es)"
  by (simp add: through_def)

lemma through_Nil: "through k [] = []"
  by (simp add: through_def)

lemma snd_operator_lshift: "snd (operator_lshift t s) = s\<lparr>was_endl := False\<rparr>"
  by (simp add: operator_lshift_def Let_def)

lemma snd_endl: "snd (endl s) = s\<lparr>was_endl := True\<rparr>"
  by (simp add: endl_def Let_def)

lemma prefixes_fold_push: "prefixes (fold push ls s) = prefixes s @ ls"
  by (induction ls arbitrary: s) (simp_all add: push_def)

lemma line_head_text_nonempty:
  "line_head_text (p # ps) = concat (map (\<lambda>l. l @ '':'') (p # ps))"
proof (induction ps arbitrary: p)
  case Nil
  show ?case by (simp add: line_head_text_def)
next
  case (Cons q qs)
  have "line_head_text (p # q # qs) = p @ '':'' @ line_head_text (q # qs)"
    by (simp add: line_head_text_def)
  then show ?case using Cons.IH [of q] by simp
qed

text \<open>An output call returns, and leaves every field but \<open>was_endl\<close> as it was.\<close>

lemma invoke_output:
  "is_output c \<Longrightarrow> \<exists>es b. invoke c s = (Returned, es, s\<lparr>was_endl := b\<rparr>)"
  by (cases c) (simp_all add: snd_operator_lshift snd_endl, blast+)

lemma invoke_all_output:
  "list_all is_output cs \<Longrightarrow>
   fst (invoke_all cs s) = None \<and> (\<exists>b. after cs s = s\<lparr>was_endl := b\<rparr>)"
proof (induction cs arbitrary: s)
  case Nil
  have "s = s\<lparr>was_endl := was_endl s\<rparr>" by simp
  then show ?case unfolding after_def by (simp, metis)
next
  case (Cons c cs)
  from Cons.prems have c: "is_output c" and cs: "list_all is_output cs" by simp_all
  from invoke_output [OF c] obtain es b
    where i: "invoke c s = (Returned, es, s\<lparr>was_endl := b\<rparr>)"
    by blast
  from Cons.IH [OF cs, of "s\<lparr>was_endl := b\<rparr>"]
  obtain b' where n: "fst (invoke_all cs (s\<lparr>was_endl := b\<rparr>)) = None"
    and a: "after cs (s\<lparr>was_endl := b\<rparr>) = s\<lparr>was_endl := b'\<rparr>"
    by auto
  show ?case using i n a
    by (auto simp: after_def split: prod.splits)
qed

section \<open>Depth filtering\<close>

text \<open>
  C1. With a file attached, a console depth of 1 and a file depth of 99, a write at
  two prefixes goes through \<open>file\<close> (after the line head, when one is due) and not at all
  through \<open>std_out\<close>. One \<open>pop\<close> succeeds and leaves one prefix; from there on,
  whatever writes and line ends come first, a write goes through both members.
\<close>

theorem write_filtered_per_sink:
  assumes "file' s = Some f" and "std_depth s = 1" and "file_depth s = 99"
    and "length (prefixes s) = 2" and "list_all is_output cs"
  shows "through Console (fst (operator_lshift t s)) = [] \<and>
         through File (fst (operator_lshift t s)) =
           (if was_endl s then line_head s else []) @ [Text t] \<and>
         fst (pop s) = None \<and> length (prefixes (snd (pop s))) = 1 \<and>
         fst (invoke_all cs (snd (pop s))) = None \<and>
         through Console (fst (operator_lshift u (after cs (snd (pop s))))) =
           (if was_endl (after cs (snd (pop s)))
            then line_head (after cs (snd (pop s))) else []) @ [Text u] \<and>
         through File (fst (operator_lshift u (after cs (snd (pop s))))) =
           (if was_endl (after cs (snd (pop s)))
            then line_head (after cs (snd (pop s))) else []) @ [Text u]"
proof -
  have ne: "prefixes s \<noteq> []" using assms(4) by auto
  have p: "pop s = (None, s\<lparr>prefixes := butlast (prefixes s)\<rparr>)"
    using ne by (simp add: pop_def)
  from invoke_all_output [OF assms(5), of "snd (pop s)"]
  obtain b where n: "fst (invoke_all cs (snd (pop s))) = None"
    and a0: "after cs (snd (pop s)) = (snd (pop s))\<lparr>was_endl := b\<rparr>" by auto
  have a: "after cs (snd (pop s)) = s\<lparr>prefixes := butlast (prefixes s), was_endl := b\<rparr>"
    using a0 p by simp
  have w1: "through Console (fst (operator_lshift t s)) = []"
    using assms(1-4)
    by (simp add: operator_lshift_def print_line_head_def Let_def through_append
        through_Pair through_Cons through_Nil)
  have w2: "through File (fst (operator_lshift t s)) =
      (if was_endl s then line_head s else []) @ [Text t]"
    using assms(1-4)
    by (simp add: operator_lshift_def print_line_head_def Let_def through_append
        through_Pair through_Cons through_Nil)
  have w3: "through Console (fst (operator_lshift u (after cs (snd (pop s))))) =
      (if was_endl (after cs (snd (pop s)))
       then line_head (after cs (snd (pop s))) else []) @ [Text u]"
    unfolding a using assms(1-4)
    by (simp add: operator_lshift_def print_line_head_def Let_def through_append
        through_Pair through_Cons through_Nil)
  have w4: "through File (fst (operator_lshift u (after cs (snd (pop s))))) =
      (if was_endl (after cs (snd (pop s)))
       then line_head (after cs (snd (pop s))) else []) @ [Text u]"
    unfolding a using assms(1-4)
    by (simp add: operator_lshift_def print_line_head_def Let_def through_append
        through_Pair through_Cons through_Nil)
  show ?thesis using w1 w2 w3 w4 n p assms(4) by simp
qed

text \<open>
  The theorem at a logger with the prefixes \<open>a\<close> and \<open>b\<close>, a line head due, and a
  write and a line end between the \<open>pop\<close> and the write looked at.
\<close>

theorem write_filtered_per_sink_witness:
  "file' \<lparr>prefixes = [''a'', ''b''], std_out = 1, file' = Some 2, was_endl = True,
          std_depth = 1, file_depth = 99, print_utime = False\<rparr> = Some 2 \<and>
   list_all is_output [Write ''x'', Endl] \<and>
   through Console (fst (operator_lshift ''v''
     \<lparr>prefixes = [''a'', ''b''], std_out = 1, file' = Some 2, was_endl = True,
      std_depth = 1, file_depth = 99, print_utime = False\<rparr>)) = [] \<and>
   through File (fst (operator_lshift ''v''
     \<lparr>prefixes = [''a'', ''b''], std_out = 1, file' = Some 2, was_endl = True,
      std_depth = 1, file_depth = 99, print_utime = False\<rparr>)) = [Text ''a:b:'', Text ''v''] \<and>
   through Console (fst (operator_lshift ''w'' (after [Write ''x'', Endl] (snd (pop
     \<lparr>prefixes = [''a'', ''b''], std_out = 1, file' = Some 2, was_endl = True,
      std_depth = 1, file_depth = 99, print_utime = False\<rparr>))))) = [Text ''a:'', Text ''w''] \<and>
   through File (fst (operator_lshift ''w'' (after [Write ''x'', Endl] (snd (pop
     \<lparr>prefixes = [''a'', ''b''], std_out = 1, file' = Some 2, was_endl = True,
      std_depth = 1, file_depth = 99, print_utime = False\<rparr>))))) = [Text ''a:'', Text ''w'']"
proof -
  let ?s = "\<lparr>prefixes = [''a'', ''b''], std_out = 1, file' = Some 2, was_endl = True,
             std_depth = 1, file_depth = 99, print_utime = False\<rparr>"
  have h1: "file' ?s = Some 2" by simp
  have h2: "std_depth ?s = 1" by simp
  have h3: "file_depth ?s = 99" by simp
  have h4: "length (prefixes ?s) = 2" by simp
  have h5: "list_all is_output [Write ''x'', Endl]" by simp
  have a: "after [Write ''x'', Endl] (snd (pop ?s)) =
      \<lparr>prefixes = [''a''], std_out = 1, file' = Some 2, was_endl = True,
       std_depth = 1, file_depth = 99, print_utime = False\<rparr>"
    by (simp add: after_def pop_def snd_operator_lshift snd_endl)
  have l1: "line_head ?s = [Text ''a:b:'']"
    by (simp add: line_head_def line_head_text_def)
  have l2: "line_head \<lparr>prefixes = [''a''], std_out = 1, file' = Some 2, was_endl = True,
       std_depth = 1, file_depth = 99, print_utime = False\<rparr> = [Text ''a:'']"
    by (simp add: line_head_def line_head_text_def)
  from write_filtered_per_sink [OF h1 h2 h3 h4 h5, of "''v''" "''w''"]
  show ?thesis unfolding a using l1 l2 h1 h5 by simp
qed



section \<open>The line head\<close>

text \<open>
  C3. Apart from the time token, the line head is one text: the prefixes in the order
  they were pushed, joined by single colons, and one more colon at the end. After the
  pushes \<open>ls\<close> onto an empty stack it is \<open>ls\<close> joined that way; on a stack that is not
  empty this is each prefix followed by its colon; for \<open>a\<close>, \<open>b\<close> it is \<open>a:b:\<close>.
\<close>

theorem line_head_joins_prefixes:
  "filter (\<lambda>i. i \<noteq> Utime) (line_head s) = [Text (join_colon (prefixes s) @ '':'')] \<and>
   line_head_text (prefixes (fold push ls (s\<lparr>prefixes := []\<rparr>))) = join_colon ls @ '':'' \<and>
   line_head_text (p # ps) = concat (map (\<lambda>l. l @ '':'') (p # ps)) \<and>
   line_head_text [''a'', ''b''] = ''a:b:''"
proof -
  have 1: "filter (\<lambda>i. i \<noteq> Utime) (line_head s) = [Text (join_colon (prefixes s) @ '':'')]"
    by (simp add: line_head_def line_head_text_def)
  have 2: "line_head_text (prefixes (fold push ls (s\<lparr>prefixes := []\<rparr>))) = join_colon ls @ '':''"
    by (simp add: prefixes_fold_push line_head_text_def)
  have 3: "line_head_text [''a'', ''b''] = ''a:b:''"
    by (simp add: line_head_text_def)
  show ?thesis using 1 2 3 line_head_text_nonempty [of p ps] by simp
qed

section \<open>The flag \<open>was_endl\<close>\<close>

text \<open>
  C4. Every line end sets \<open>was_endl\<close>, whatever the depths let through, and every
  write leaves it cleared, whatever it emitted; so the first write after a line end
  clears it.
\<close>

theorem was_endl_set_and_cleared:
  "was_endl (snd (endl s)) = True \<and>
   was_endl (snd (operator_lshift t (snd (endl s)))) = False \<and>
   was_endl (snd (operator_lshift t s)) = False"
  by (simp add: snd_endl snd_operator_lshift)

text \<open>
  C5. A write that follows a line end puts the line head and then the value, next to
  each other, through each member whose depth test passes (and, for \<open>file\<close>, that is
  attached), and nothing through the other. Of two writes in a row the second adds the
  value alone: through each member the two values are next to each other.
\<close>

theorem head_precedes_first_write_only:
  "through Console (fst (operator_lshift x (snd (endl s)))) =
     (if length (prefixes s) \<le> unat (std_depth s) then line_head s @ [Text x] else []) \<and>
   through File (fst (operator_lshift x (snd (endl s)))) =
     (if file' s \<noteq> None \<and> length (prefixes s) \<le> unat (file_depth s)
      then line_head s @ [Text x] else []) \<and>
   through Console (fst (operator_lshift a s) @
                    fst (operator_lshift b (snd (operator_lshift a s)))) =
     (if length (prefixes s) \<le> unat (std_depth s)
      then (if was_endl s then line_head s else []) @ [Text a, Text b] else []) \<and>
   through File (fst (operator_lshift a s) @
                 fst (operator_lshift b (snd (operator_lshift a s)))) =
     (if file' s \<noteq> None \<and> length (prefixes s) \<le> unat (file_depth s)
      then (if was_endl s then line_head s else []) @ [Text a, Text b] else [])"
  by (simp add: snd_endl snd_operator_lshift operator_lshift_def print_line_head_def Let_def
      line_head_def through_append through_Pair through_Cons through_Nil)

section \<open>Errors\<close>

text \<open>
  C6. \<open>pop\<close> on an empty stack signals the underflow error and returns the logger as
  it was; on a stack that ends in \<open>l\<close> it takes \<open>l\<close> off and nothing else, so it undoes
  the \<open>push\<close> before it.
\<close>

theorem pop_underflow_or_removes_last:
  "pop (s\<lparr>prefixes := []\<rparr>) = (Some ScopeUnderflow, s\<lparr>prefixes := []\<rparr>) \<and>
   pop (s\<lparr>prefixes := ps @ [l]\<rparr>) = (None, s\<lparr>prefixes := ps\<rparr>) \<and>
   pop (push l s) = (None, s)"
  by (simp add: pop_def push_def)

section \<open>Errors and depth\<close>

text \<open>
  C8. Asking for the file stream when none is attached signals
  \<open>ExcNoFileStreamGiven\<close>; with one attached the call returns it. A call raises in two
  cases only, \<open>pop\<close> on an empty stack and that request without a file: neither looks at
  a depth, and a write or a line end never raises.
\<close>

theorem errors_are_underflow_and_no_file_only:
  "get_file_stream (s\<lparr>file' := None\<rparr>) = Inl ExcNoFileStreamGiven \<and>
   get_file_stream (s\<lparr>file' := Some f\<rparr>) = Inr f \<and>
   (fst (invoke c s) = Raised e) =
     ((c = Pop \<and> prefixes s = [] \<and> e = ScopeUnderflow) \<or>
      (c = Get_file_stream \<and> file' s = None \<and> e = ExcNoFileStreamGiven))"
  by (cases c) (auto simp: get_file_stream_def pop_def split: option.splits)

section \<open>Frame of the two output operations\<close>

text \<open>
  C9. Writing a value and ending a line change no field of the logger but
  \<open>was_endl\<close>: the prefix stack, both stream references, both depths and the time flag
  are as before.
\<close>

theorem output_changes_only_was_endl:
  "snd (operator_lshift t s) = s\<lparr>was_endl := False\<rparr> \<and> snd (endl s) = s\<lparr>was_endl := True\<rparr>"
  by (simp add: operator_lshift_def endl_def Let_def)

text \<open>
  C10. A line end puts nothing but the line break through a member, and only where the
  depth test passes: the second of two line ends in a row emits what the first did, a
  bare line break. The line head comes with a write that finds \<open>was_endl\<close> set; a write
  that finds it cleared emits the value alone.
\<close>

theorem endl_emits_bare_line_break:
  "through Console (fst (endl (snd (endl s)))) =
     (if length (prefixes s) \<le> unat (std_depth s) then [Newline] else []) \<and>
   through File (fst (endl (snd (endl s)))) =
     (if file' s \<noteq> None \<and> length (prefixes s) \<le> unat (file_depth s)
      then [Newline] else []) \<and>
   fst (endl (snd (endl s))) = fst (endl s) \<and>
   fst (operator_lshift t (s\<lparr>was_endl := True\<rparr>)) =
     print_line_head s @ fst (operator_lshift t (s\<lparr>was_endl := False\<rparr>)) \<and>
   through Console (fst (operator_lshift t (s\<lparr>was_endl := False\<rparr>))) =
     (if length (prefixes s) \<le> unat (std_depth s) then [Text t] else []) \<and>
   through File (fst (operator_lshift t (s\<lparr>was_endl := False\<rparr>))) =
     (if file' s \<noteq> None \<and> length (prefixes s) \<le> unat (file_depth s)
      then [Text t] else [])"
  by (simp add: snd_endl endl_def operator_lshift_def print_line_head_def Let_def
      line_head_def through_append through_Pair through_Cons through_Nil)

end
